theory Spec2Isabelle
  imports Main "HOL-Library.Sublist"
begin

section \<open>The catalogue synchroniser of \<^verbatim>\<open>scripts/sync_mcp_direct.py\<close>\<close>

text \<open>
  The reconciliation engine of the repository is the PL/pgSQL text that
  \<^verbatim>\<open>create_sync_functions\<close> installs: the functions \<^verbatim>\<open>generate_server_id\<close>,
  \<^verbatim>\<open>extract_tags\<close>, \<^verbatim>\<open>determine_category\<close> and
  \<^verbatim>\<open>sync_mcp_servers_from_pulsemcp\<close>. The definitions below follow that text
  statement by statement, as PostgreSQL runs it.

  Reading conventions.
  \<^item> SQL \<^verbatim>\<open>text\<close> is \<open>string\<close>, a nullable value is an \<open>option\<close> with \<open>None\<close> for
    \<^verbatim>\<open>NULL\<close>. A condition that evaluates to \<^verbatim>\<open>NULL\<close> does not take its branch.
  \<^item> A statement or an expression that PostgreSQL rejects when it is run raises an
    exception there, whatever its arguments. Two statements of the text are of that
    kind: the regular expression of line 96 and the query of lines 134 to 139.
  \<^item> \<^verbatim>\<open>lower()\<close> follows the locale of the database: it is a parameter \<open>lower\<close> of the
    functions that call it, and a field of the record \<open>environment\<close>. The classes
    \<^verbatim>\<open>[a-z0-9]\<close> and \<^verbatim>\<open>\w\<close> hold ASCII characters.
  \<^item> What the database server, the catalogue service and the table declarations decide,
    and the program text does not, is a field of the record \<open>environment\<close>.
\<close>

subsection \<open>Text functions\<close>

datatype exception =
    fetch_failed
  | invalid_regular_expression
  | undefined_column
  | invalid_text_representation
  | not_null_violation
  | ambiguous_column
  | not_an_array
  | not_an_object

definition coalesce :: "'a option \<Rightarrow> 'a \<Rightarrow> 'a" where
  "coalesce x d = (case x of None \<Rightarrow> d | Some v \<Rightarrow> v)"

text \<open>The bracket expression \<^verbatim>\<open>[a-z0-9]\<close>.\<close>

definition lower_alnum :: "char \<Rightarrow> bool" where
  "lower_alnum c \<longleftrightarrow> c \<in> set ''abcdefghijklmnopqrstuvwxyz0123456789''"

text \<open>The class \<^verbatim>\<open>[\w.-]\<close> of the owner and repository groups.\<close>

definition word_char :: "char \<Rightarrow> bool" where
  "word_char c \<longleftrightarrow>
     c \<in> set ''abcdefghijklmnopqrstuvwxyzABCDEFGHIJKLMNOPQRSTUVWXYZ0123456789_''"

definition part_char :: "char \<Rightarrow> bool" where
  "part_char c \<longleftrightarrow> word_char c \<or> c = CHR ''.'' \<or> c = CHR ''-''"

text \<open>
  \<^verbatim>\<open>s LIKE '%pat%'\<close> for a pattern without wildcards of its own: \<open>pat\<close> occurs in \<open>s\<close>.
\<close>

fun like_contains :: "string \<Rightarrow> string \<Rightarrow> bool" where
  "like_contains [] pat = (pat = [])"
| "like_contains (c # s) pat = (prefix pat (c # s) \<or> like_contains s pat)"

text \<open>
  \<^verbatim>\<open>regexp_replace(s, '[^a-z0-9]+', '-', 'g')\<close>: every maximal run of characters outside
  \<^verbatim>\<open>[a-z0-9]\<close> becomes one \<^verbatim>\<open>-\<close>. The match is case sensitive (no \<^verbatim>\<open>i\<close> flag), so an
  upper-case letter belongs to a run.
\<close>

function replace_runs :: "string \<Rightarrow> string" where
  "replace_runs [] = []"
| "replace_runs (c # s) =
     (if lower_alnum c then c # replace_runs s
      else CHR ''-'' # replace_runs (dropWhile (\<lambda>d. \<not> lower_alnum d) s))"
  by pat_completeness auto
termination
  by (relation "measure length") (auto simp: less_Suc_eq_le length_dropWhile_le)

text \<open>
  \<^verbatim>\<open>regexp_split_to_array(s, '[^a-z0-9]+')\<close>: the pieces between the maximal runs of
  characters outside \<^verbatim>\<open>[a-z0-9]\<close>; a run at either end leaves an empty piece there.
\<close>

function regexp_split_to_array :: "string \<Rightarrow> string list" where
  "regexp_split_to_array [] = [[]]"
| "regexp_split_to_array (c # s) =
     (if lower_alnum c then
        (case regexp_split_to_array s of
           [] \<Rightarrow> [[c]]
         | w # ws \<Rightarrow> (c # w) # ws)
      else [] # regexp_split_to_array (dropWhile (\<lambda>d. \<not> lower_alnum d) s))"
  by pat_completeness auto
termination
  by (relation "measure length") (auto simp: less_Suc_eq_le length_dropWhile_le)

text \<open>
  \<^verbatim>\<open>lower()\<close> in a locale that maps the letters \<^verbatim>\<open>A-Z\<close> to \<^verbatim>\<open>a-z\<close> and leaves every
  other character alone: the function the concrete environments below use.
\<close>

definition lower_char :: "char \<Rightarrow> char" where
  "lower_char c =
     (case map_of (zip ''ABCDEFGHIJKLMNOPQRSTUVWXYZ'' ''abcdefghijklmnopqrstuvwxyz'') c of
        None \<Rightarrow> c | Some l \<Rightarrow> l)"

definition ascii_lower :: "string \<Rightarrow> string" where
  "ascii_lower s = map lower_char s"

subsection \<open>\<^verbatim>\<open>generate_server_id\<close>\<close>

text \<open>
  \<^verbatim>\<open>regexp_matches(github_url, 'github\.com[/:]([\w.-]+)/([\w.-]+)')\<close>. \<open>match_here\<close> matches
  the pattern at the start of its argument: the owner group is followed by \<^verbatim>\<open>/\<close>, which
  is outside its class, so it is the whole run; the repository group is greedy.
  \<open>regexp_matches\<close> takes the leftmost position at which the pattern matches.
\<close>

fun strip_prefix :: "string \<Rightarrow> string \<Rightarrow> string option" where
  "strip_prefix [] s = Some s"
| "strip_prefix (p # ps) [] = None"
| "strip_prefix (p # ps) (c # s) = (if p = c then strip_prefix ps s else None)"

definition match_here :: "string \<Rightarrow> (string \<times> string) option" where
  "match_here s =
     (case strip_prefix ''github.com'' s of
        None \<Rightarrow> None
      | Some [] \<Rightarrow> None
      | Some (d # r) \<Rightarrow>
          if d = CHR ''/'' \<or> d = CHR '':'' then
            (let owner = takeWhile part_char r in
             case dropWhile part_char r of
               [] \<Rightarrow> None
             | e # r' \<Rightarrow>
                 let repo = takeWhile part_char r' in
                 if owner \<noteq> [] \<and> e = CHR ''/'' \<and> repo \<noteq> [] then Some (owner, repo)
                 else None)
          else None)"

fun regexp_matches :: "string \<Rightarrow> (string \<times> string) option" where
  "regexp_matches [] = match_here []"
| "regexp_matches (c # s) =
     (case match_here (c # s) of
        Some m \<Rightarrow> Some m
      | None \<Rightarrow> regexp_matches s)"

text \<open>\<^verbatim>\<open>regexp_replace(repo, '\.git$', '')\<close>.\<close>

definition strip_git :: "string \<Rightarrow> string" where
  "strip_git repo =
     (if suffix ''.git'' repo then take (length repo - 4) repo else repo)"

text \<open>
  \<^verbatim>\<open>regexp_replace(server_id, '[^a-z0-9-/]', '-', 'g')\<close> (line 96). In the bracket expression
  the \<^verbatim>\<open>-\<close> that follows the range \<^verbatim>\<open>0-9\<close> begins a second range: PostgreSQL rejects
  the expression as an invalid character range, so the call raises for every text.
\<close>

definition regexp_replace_other :: "string \<Rightarrow> exception + string" where
  "regexp_replace_other s = Inl invalid_regular_expression"

text \<open>
  The function itself (source lines 79 to 105). On the GitHub branch it reaches line 96
  and raises. A \<^verbatim>\<open>NULL\<close> name gives a \<^verbatim>\<open>NULL\<close> identifier on the fallback path, as
  \<^verbatim>\<open>regexp_replace\<close> and \<^verbatim>\<open>lower\<close> are strict.
\<close>

definition fallback_id :: "(string \<Rightarrow> string) \<Rightarrow> string option \<Rightarrow> string option" where
  "fallback_id lower name = map_option (\<lambda>n. lower (replace_runs n)) name"

definition generate_server_id ::
  "(string \<Rightarrow> string) \<Rightarrow> string option \<Rightarrow> string option \<Rightarrow> exception + string option" where
  "generate_server_id lower name github_url =
     (case github_url of
        None \<Rightarrow> Inr (fallback_id lower name)
      | Some url \<Rightarrow>
          (case regexp_matches url of
             None \<Rightarrow> Inr (fallback_id lower name)
           | Some (github_owner, github_repo) \<Rightarrow>
               (case regexp_replace_other (lower (github_owner @ ''/'' @ strip_git github_repo)) of
                  Inl e \<Rightarrow> Inl e
                | Inr replaced \<Rightarrow> Inr (Some replaced))))"

text \<open>
  The fallback as the specification words it: the lower-cased name, every run of
  characters that are not alphanumeric collapsed to one \<^verbatim>\<open>-\<close>.
\<close>

definition fallback_id_spec :: "(string \<Rightarrow> string) \<Rightarrow> string \<Rightarrow> string" where
  "fallback_id_spec lower name = replace_runs (lower name)"

subsection \<open>\<^verbatim>\<open>determine_category\<close>\<close>

text \<open>
  Source lines 151 to 175. \<open>lc_name\<close> is \<^verbatim>\<open>NULL\<close> for a \<^verbatim>\<open>NULL\<close> name, and a
  \<^verbatim>\<open>LIKE\<close> on it is \<^verbatim>\<open>NULL\<close>: in a disjunction under \<^verbatim>\<open>IF\<close> that counts as false.
  \<open>lc_desc\<close> is never \<^verbatim>\<open>NULL\<close>.
\<close>

definition name_like :: "string option \<Rightarrow> string \<Rightarrow> bool" where
  "name_like lc_name pat = (case lc_name of None \<Rightarrow> False | Some n \<Rightarrow> like_contains n pat)"

definition determine_category ::
  "(string \<Rightarrow> string) \<Rightarrow> string option \<Rightarrow> string option \<Rightarrow> string" where
  "determine_category lower name description =
     (let lc_name = map_option lower name;
          lc_desc = lower (coalesce description [])
      in if name_like lc_name ''auth'' \<or> like_contains lc_desc ''auth''
            \<or> like_contains lc_desc ''login'' then ''auth''
         else if like_contains lc_desc ''database'' \<or> like_contains lc_desc ''storage''
            \<or> name_like lc_name ''db'' then ''database''
         else if like_contains lc_desc ''ai'' \<or> like_contains lc_desc ''llm''
            \<or> like_contains lc_desc ''language model'' then ''ai''
         else if like_contains lc_desc ''file'' \<or> like_contains lc_desc ''document''
           then ''files''
         else if like_contains lc_desc ''web'' \<or> like_contains lc_desc ''http'' then ''web''
         else ''other'')"

text \<open>
  The classifier as the specification words it: the lower-cased name and description are
  both scanned for the keywords of each rule (\<^verbatim>\<open>db\<close> in the name only), and the first
  rule with a keyword found wins.
\<close>

definition scanned :: "string option \<Rightarrow> string \<Rightarrow> string \<Rightarrow> bool" where
  "scanned lc_name lc_desc kw \<longleftrightarrow> name_like lc_name kw \<or> like_contains lc_desc kw"

definition determine_category_spec ::
  "(string \<Rightarrow> string) \<Rightarrow> string option \<Rightarrow> string option \<Rightarrow> string" where
  "determine_category_spec lower name description =
     (let lc_name = map_option lower name;
          lc_desc = lower (coalesce description [])
      in if scanned lc_name lc_desc ''auth'' \<or> scanned lc_name lc_desc ''login'' then ''auth''
         else if scanned lc_name lc_desc ''database'' \<or> scanned lc_name lc_desc ''storage''
            \<or> name_like lc_name ''db'' then ''database''
         else if scanned lc_name lc_desc ''ai'' \<or> scanned lc_name lc_desc ''llm''
            \<or> scanned lc_name lc_desc ''language model'' then ''ai''
         else if scanned lc_name lc_desc ''file'' \<or> scanned lc_name lc_desc ''document''
           then ''files''
         else if scanned lc_name lc_desc ''web'' \<or> scanned lc_name lc_desc ''http''
           then ''web''
         else ''other'')"

subsection \<open>\<^verbatim>\<open>extract_tags\<close>\<close>

text \<open>
  Source lines 108 to 148. The function splits the lower-cased name and description and
  concatenates the pieces; then it runs
  \<^verbatim>\<open>SELECT array_agg(word) INTO tags FROM (SELECT DISTINCT unnest(all_words) AS word
  WHERE length(unnest) > 2 AND unnest NOT IN (SELECT unnest(common_words))) t\<close>.
  The inner \<^verbatim>\<open>SELECT\<close> has no \<^verbatim>\<open>FROM\<close> clause, so the \<^verbatim>\<open>unnest\<close> of its \<^verbatim>\<open>WHERE\<close> names
  a column that nothing provides, and no variable of the function has that name:
  PostgreSQL rejects the statement when it is run (column \<^verbatim>\<open>unnest\<close> does not exist),
  whatever the words. The function never reaches its cap of 10 tags.
\<close>

definition common_words :: "string list" where
  "common_words =
     [''the'', ''and'', ''for'', ''with'', ''that'', ''this'', ''has'', ''are'', ''from'']"

definition all_words :: "(string \<Rightarrow> string) \<Rightarrow> string option \<Rightarrow> string option \<Rightarrow> string list"
  where
  "all_words lower name description =
     (let name_parts = (case name of None \<Rightarrow> [] | Some n \<Rightarrow> regexp_split_to_array (lower n));
          desc_parts =
            (case description of None \<Rightarrow> [] | Some d \<Rightarrow> regexp_split_to_array (lower d))
      in name_parts @ desc_parts)"

definition select_distinct_words :: "string list \<Rightarrow> string list \<Rightarrow> exception + string list option"
  where
  "select_distinct_words words stop_words = Inl undefined_column"

definition extract_tags ::
  "(string \<Rightarrow> string) \<Rightarrow> string option \<Rightarrow> string option \<Rightarrow> exception + string list option"
  where
  "extract_tags lower name description =
     (case select_distinct_words (all_words lower name description) common_words of
        Inl e \<Rightarrow> Inl e
      | Inr None \<Rightarrow> Inr None
      | Inr (Some tags) \<Rightarrow>
          if length tags > 10 then Inr (Some (take 10 tags)) else Inr (Some tags))"

text \<open>
  The tag list as the specification words it: the tokens longer than 2 characters that
  are no stop words, deduplicated in first-seen order, capped at 10.
\<close>

definition kept_word :: "string \<Rightarrow> bool" where
  "kept_word w \<longleftrightarrow> length w > 2 \<and> w \<notin> set common_words"

definition first_seen :: "string list \<Rightarrow> string list" where
  "first_seen ws = rev (remdups (rev ws))"

definition extract_tags_spec ::
  "(string \<Rightarrow> string) \<Rightarrow> string option \<Rightarrow> string option \<Rightarrow> string list" where
  "extract_tags_spec lower name description =
     take 10 (first_seen (filter kept_word (all_words lower name description)))"

subsection \<open>Tables, catalogue entries and the environment\<close>

text \<open>
  A catalogue entry is the \<^verbatim>\<open>jsonb\<close> value \<open>server\<close> of the loop. The program reads it
  through \<^verbatim>\<open>server->>'key'\<close>, the text of a member or \<^verbatim>\<open>NULL\<close> (\<open>member_text\<close>), and
  through \<^verbatim>\<open>server->'install_instructions'\<close>, which is \<^verbatim>\<open>NULL\<close> when the member is
  missing, and otherwise a JSON value that is an array or is not (JSON \<^verbatim>\<open>null\<close>, a scalar,
  an object). An element of the array is an object, read by \<^verbatim>\<open>jsonb_to_recordset\<close>
  through its members' texts, or something else (\<open>None\<close>).
\<close>

type_synonym json_object = "string \<Rightarrow> string option"

datatype install_json = sql_null | non_array | array "json_object option list"

record server_json =
  member_text :: "string \<Rightarrow> string option"
  install_instructions :: install_json
  endpoints :: "string option"
  examples :: "string option"

type_synonym timestamp = nat

text \<open>The values \<^verbatim>\<open>jsonb_build_object\<close> puts into the API-documentation block.\<close>

datatype jsonb = jtext string | jraw string | jtime timestamp | jobject "(string \<times> jsonb) list"

text \<open>
  Modelled from the spec: the declarations of the tables \<^verbatim>\<open>servers\<close> and
  \<^verbatim>\<open>server_install_instructions\<close> are not in the repository. The columns are those the
  program writes; \<^verbatim>\<open>servers.id\<close> is the key of its table (the specification's derived,
  unique identifier), hence not \<^verbatim>\<open>NULL\<close>; every other column is nullable and has no
  constraint.
\<close>

record server_row =
  id_col :: string
  name :: "string option"
  description :: "string option"
  category :: "string option"
  tags :: "string list option"
  package_registry :: "string option"
  package_name :: "string option"
  package_download_count :: "int option"
  github_url :: "string option"
  github_stars :: "int option"
  external_url :: "string option"
  updated_at :: "timestamp option"
  api_documentation :: "jsonb option"
  created_at :: "timestamp option"

record instruction_row =
  server_id :: "string option"
  platform :: "string option"
  icon_url :: "string option"
  install_command :: "string option"
  sort_order :: "int option"

record database =
  servers :: "server_row list"
  server_install_instructions :: "instruction_row list"

text \<open>
  The statements \<^verbatim>\<open>DELETE FROM server_install_instructions WHERE server_id = server_id\<close>
  and \<^verbatim>\<open>SELECT ... WHERE server_id = server_id\<close> name a column of the table and a variable
  of the function by one identifier. PL/pgSQL resolves an identifier one way throughout a
  statement, by the setting \<^verbatim>\<open>plpgsql.variable_conflict\<close>: it rejects the statement as
  ambiguous when it is run (\<open>conflict_error\<close>, the default), or reads both sides as the
  variable (\<open>use_variable\<close>), or both sides as the column (\<open>use_column\<close>). Under no
  setting is one side the column and the other the variable.
\<close>

datatype variable_conflict = conflict_error | use_variable | use_column

text \<open>
  The environment of a run:
  \<^item> \<open>variable_conflict\<close>, the setting above;
  \<^item> \<open>now\<close>, the value of \<^verbatim>\<open>now()\<close>: the start of the transaction, the same in every
    statement of the run;
  \<^item> \<open>http\<close>, the answer of the catalogue service to a \<^verbatim>\<open>GET\<close> of a URL: the entries of
    \<^verbatim>\<open>response->'servers'\<close> and the text of \<^verbatim>\<open>response->>'next'\<close>, or an exception
    (the request fails, the content is not JSON, \<^verbatim>\<open>servers\<close> is not an array), raised
    before any entry of the page is processed. The service answers a URL the same way
    throughout a run;
  \<^item> \<open>bigint\<close>, the cast of a text to \<^verbatim>\<open>bigint\<close>, \<open>None\<close> where the text is not valid
    input;
  \<^item> \<open>lower\<close>, the function \<^verbatim>\<open>lower()\<close> of the database's locale;
  \<^item> \<open>is_not_null\<close>, the outcome of the test \<^verbatim>\<open>result IS NOT NULL\<close> on the row that
    \<^verbatim>\<open>RETURNING * INTO result\<close> stored. The program uses the test for: the write
    reported a row. For a row value SQL makes it true only if every column of the table is
    non-null, which the table declaration and the row decide;
  \<^item> \<open>sqlerrm\<close>, the message text of an exception.
\<close>

record environment =
  variable_conflict :: variable_conflict
  now :: timestamp
  http :: "string \<Rightarrow> exception + (server_json list \<times> string option)"
  bigint :: "string \<Rightarrow> int option"
  lower :: "string \<Rightarrow> string"
  is_not_null :: "server_row \<Rightarrow> bool"
  sqlerrm :: "exception \<Rightarrow> string"

subsection \<open>Reconciling the primary record (source lines 222 to 307)\<close>

definition build_api_documentation :: "environment \<Rightarrow> server_json \<Rightarrow> jsonb" where
  "build_api_documentation env server =
     jobject
       [(''description'',
           jtext (coalesce (member_text server ''EXPERIMENTAL_ai_generated_description'')
                    (coalesce (member_text server ''short_description'') []))),
        (''endpoints'', jraw (coalesce (endpoints server) ''[]'')),
        (''examples'', jraw (coalesce (examples server) ''[]'')),
        (''methods'', jobject []),
        (''meta'',
           jobject
             [(''generated_at'', jtime (now env)),
              (''source'', jtext ''pulsemcp''),
              (''version'', jtext ''1.0'')])]"

definition cast_bigint :: "environment \<Rightarrow> string option \<Rightarrow> exception + int option" where
  "cast_bigint env v =
     (case v of
        None \<Rightarrow> Inr None
      | Some s \<Rightarrow>
          (case bigint env s of
             None \<Rightarrow> Inl invalid_text_representation
           | Some k \<Rightarrow> Inr (Some k)))"

text \<open>
  The row of the \<^verbatim>\<open>INSERT\<close>: \<open>server_data\<close> with \<^verbatim>\<open>created_at\<close> set to \<^verbatim>\<open>now()\<close>,
  populated into a record of the table. \<open>server_tags\<close> is the member \<^verbatim>\<open>tags\<close> of
  \<open>server_data\<close>.
\<close>

definition insert_row ::
  "environment \<Rightarrow> server_json \<Rightarrow> string \<Rightarrow> string list option \<Rightarrow> int option \<Rightarrow> int option
     \<Rightarrow> server_row" where
  "insert_row env server k server_tags downloads stars =
     \<lparr>id_col = k,
      name = member_text server ''name'',
      description = member_text server ''short_description'',
      category =
        Some (determine_category (lower env) (member_text server ''name'')
                (member_text server ''short_description'')),
      tags = server_tags,
      package_registry = member_text server ''package_registry'',
      package_name = member_text server ''package_name'',
      package_download_count = downloads,
      github_url = member_text server ''source_code_url'',
      github_stars = stars,
      external_url = member_text server ''external_url'',
      updated_at = Some (now env),
      api_documentation = Some (build_api_documentation env server),
      created_at = Some (now env)\<rparr>"

text \<open>The \<^verbatim>\<open>SET\<close> list of the \<^verbatim>\<open>UPDATE\<close>, applied to a row.\<close>

definition update_row ::
  "environment \<Rightarrow> server_json \<Rightarrow> string list option \<Rightarrow> int option \<Rightarrow> int option
     \<Rightarrow> server_row \<Rightarrow> server_row" where
  "update_row env server server_tags downloads stars r =
     r\<lparr>name := member_text server ''name'',
       description := member_text server ''short_description'',
       category :=
         Some (determine_category (lower env) (member_text server ''name'')
                 (member_text server ''short_description'')),
       tags := server_tags,
       package_registry := member_text server ''package_registry'',
       package_name := member_text server ''package_name'',
       package_download_count := downloads,
       github_url := member_text server ''source_code_url'',
       github_stars := stars,
       external_url := member_text server ''external_url'',
       updated_at := Some (now env),
       api_documentation := Some (build_api_documentation env server)\<rparr>"

record counters =
  server_count :: int
  added_count :: int
  updated_count :: int
  skipped_count :: int
  error_count :: int
  error_messages :: "string list"

text \<open>
  \<open>reconcile\<close> is the lookup, the construction of \<open>server_data\<close> and the \<^verbatim>\<open>INSERT\<close> or
  \<^verbatim>\<open>UPDATE\<close> with the counting that follows it. It raises (\<open>Inl\<close>), or returns the
  counters, the table and the key of the written row; the key is \<open>None\<close> where the
  program leaves the iteration by \<^verbatim>\<open>CONTINUE\<close>. The lookup and the API-documentation
  block raise nothing. \<open>server_data\<close> is built at line 247 with a call of
  \<^verbatim>\<open>extract_tags\<close> (line 252), before either write: an exception of that call leaves
  the block there. The casts to \<^verbatim>\<open>bigint\<close> come with the write; a \<^verbatim>\<open>NULL\<close>
  identifier finds no row and violates the key's constraint in the \<^verbatim>\<open>INSERT\<close>.
\<close>

definition reconcile ::
  "environment \<Rightarrow> server_json \<Rightarrow> string option \<Rightarrow> counters \<Rightarrow> server_row list
     \<Rightarrow> exception + (counters \<times> server_row list \<times> string option)" where
  "reconcile env server server_id' c tbl =
     (case extract_tags (lower env) (member_text server ''name'')
             (member_text server ''short_description'') of
        Inl e \<Rightarrow> Inl e
      | Inr server_tags \<Rightarrow>
     (case cast_bigint env (member_text server ''package_download_count'') of
        Inl e \<Rightarrow> Inl e
      | Inr downloads \<Rightarrow>
     (case cast_bigint env (member_text server ''github_stars'') of
        Inl e \<Rightarrow> Inl e
      | Inr stars \<Rightarrow>
     (case server_id' of
        None \<Rightarrow> Inl not_null_violation
      | Some k \<Rightarrow>
     (case find (\<lambda>r. id_col r = k) tbl of
        None \<Rightarrow>
          (let insert_result = insert_row env server k server_tags downloads stars;
               tbl' = tbl @ [insert_result]
           in if is_not_null env insert_result
              then Inr (c\<lparr>added_count := added_count c + 1\<rparr>, tbl', Some k)
              else Inr (c\<lparr>skipped_count := skipped_count c + 1,
                          error_messages :=
                            error_messages c @ [''Failed to insert server '' @ k]\<rparr>,
                        tbl', None))
      | Some existing_server \<Rightarrow>
          (let update_result = update_row env server server_tags downloads stars existing_server;
               tbl' = map (\<lambda>r. if id_col r = k
                                then update_row env server server_tags downloads stars r
                                else r) tbl
           in if is_not_null env update_result
              then Inr (c\<lparr>updated_count := updated_count c + 1\<rparr>, tbl', Some k)
              else Inr (c\<lparr>skipped_count := skipped_count c + 1,
                          error_messages :=
                            error_messages c @ [''Failed to update server '' @ k]\<rparr>,
                        tbl', None)))))))"

subsection \<open>Replacing the install instructions (source lines 309 to 398)\<close>

text \<open>
  \<open>same_server_id\<close> is the condition \<^verbatim>\<open>server_id = server_id\<close> on a row, under a setting that
  resolves the name: with both sides the column it holds for the rows whose column is not
  \<^verbatim>\<open>NULL\<close>; with both sides the variable, which holds the key of the row just written,
  it holds for every row.
\<close>

definition same_server_id :: "variable_conflict \<Rightarrow> instruction_row \<Rightarrow> bool" where
  "same_server_id vc r = (case vc of use_column \<Rightarrow> server_id r \<noteq> None | _ \<Rightarrow> True)"

definition delete_instructions ::
  "variable_conflict \<Rightarrow> instruction_row list \<Rightarrow> exception + instruction_row list" where
  "delete_instructions vc tbl =
     (case vc of
        conflict_error \<Rightarrow> Inl ambiguous_column
      | _ \<Rightarrow> Inr (filter (\<lambda>r. \<not> same_server_id vc r) tbl))"

text \<open>\<^verbatim>\<open>MAX(sort_order)\<close>: the greatest non-null value, \<^verbatim>\<open>NULL\<close> if there is none.\<close>

definition max_sort_order :: "instruction_row list \<Rightarrow> int option" where
  "max_sort_order rows =
     (case List.map_filter sort_order rows of
        [] \<Rightarrow> None
      | k # ks \<Rightarrow> Some (fold max ks k))"

definition next_sort_order :: "variable_conflict \<Rightarrow> instruction_row list \<Rightarrow> int" where
  "next_sort_order vc tbl =
     coalesce (max_sort_order (filter (same_server_id vc) tbl)) (- 1) + 1"

text \<open>The loop over the records of \<^verbatim>\<open>jsonb_to_recordset\<close>, one \<^verbatim>\<open>INSERT\<close> each.\<close>

fun insert_records ::
  "variable_conflict \<Rightarrow> string \<Rightarrow> json_object list \<Rightarrow> instruction_row list
     \<Rightarrow> exception + instruction_row list" where
  "insert_records vc k [] tbl = Inr tbl"
| "insert_records vc k (install_record # rest) tbl =
     (case vc of
        conflict_error \<Rightarrow> Inl ambiguous_column
      | _ \<Rightarrow>
          insert_records vc k rest
            (tbl @ [\<lparr>server_id = Some k,
                     platform = install_record ''platform'',
                     icon_url = install_record ''icon_url'',
                     install_command = install_record ''install_command'',
                     sort_order = Some (next_sort_order vc tbl)\<rparr>]))"

definition instruction :: "string \<Rightarrow> string \<Rightarrow> string \<Rightarrow> string \<Rightarrow> int \<Rightarrow> instruction_row" where
  "instruction k p i c n =
     \<lparr>server_id = Some k, platform = Some p, icon_url = Some i, install_command = Some c,
      sort_order = Some n\<rparr>"

definition default_instructions :: "string \<Rightarrow> string \<Rightarrow> string \<Rightarrow> instruction_row list" where
  "default_instructions k package_registry' package_name' =
     (if package_registry' = ''npm'' then
        [instruction k ''Node.js''
           ''https://nodejs.org/static/images/logos/nodejs-new-pantone-black.svg''
           (''npm install '' @ package_name') 0,
         instruction k ''Yarn'' ''https://yarnpkg.com/favicon.svg''
           (''yarn add '' @ package_name') 1]
      else if package_registry' = ''pip'' \<or> package_registry' = ''pypi'' then
        [instruction k ''Python'' ''https://www.python.org/static/favicon.ico''
           (''pip install '' @ package_name') 0]
      else if package_registry' = ''cargo'' then
        [instruction k ''Rust'' ''https://www.rust-lang.org/favicon.ico''
           (''cargo add '' @ package_name') 0]
      else if package_registry' = ''go'' then
        [instruction k ''Go'' ''https://go.dev/favicon.ico''
           (''go get '' @ package_name') 0]
      else [])"

text \<open>
  \<open>sync_instructions\<close>: the \<^verbatim>\<open>DELETE\<close>, then the supplied instructions or the defaults.
  \<^verbatim>\<open>jsonb_array_length\<close> raises on a value that is not an array, and
  \<^verbatim>\<open>jsonb_to_recordset\<close> on an array with an element that is not an object.
\<close>

definition sync_instructions ::
  "environment \<Rightarrow> string \<Rightarrow> server_json \<Rightarrow> instruction_row list
     \<Rightarrow> exception + instruction_row list" where
  "sync_instructions env k server tbl =
     (case delete_instructions (variable_conflict env) tbl of
        Inl e \<Rightarrow> Inl e
      | Inr tbl' \<Rightarrow>
          (case install_instructions server of
             non_array \<Rightarrow> Inl not_an_array
           | array (x # xs) \<Rightarrow>
               (case those (x # xs) of
                  None \<Rightarrow> Inl not_an_object
                | Some install_records \<Rightarrow>
                    insert_records (variable_conflict env) k install_records tbl')
           | _ \<Rightarrow>
               (case (member_text server ''package_registry'',
                      member_text server ''package_name'') of
                  (Some package_registry', Some package_name') \<Rightarrow>
                    Inr (tbl' @ default_instructions k package_registry' package_name')
                | _ \<Rightarrow> Inr tbl')))"

subsection \<open>One entry, one page, the run (source lines 178 to 463)\<close>

text \<open>
  \<open>process_server\<close> is the body of the inner block: the identifier (line 223), the
  primary record, the instructions. When it raises it hands the counters over as they are
  at that moment: the variables of a PL/pgSQL function keep their values when a block's
  exception handler takes over, while the changes the block made to the tables are undone.
\<close>

definition process_server ::
  "environment \<Rightarrow> server_json \<Rightarrow> counters \<Rightarrow> database
     \<Rightarrow> (exception \<times> counters) + (counters \<times> database)" where
  "process_server env server c d =
     (case generate_server_id (lower env) (member_text server ''name'')
             (member_text server ''source_code_url'') of
        Inl e \<Rightarrow> Inl (e, c)
      | Inr server_id' \<Rightarrow>
          (case reconcile env server server_id' c (servers d) of
             Inl e \<Rightarrow> Inl (e, c)
           | Inr (c', servers', None) \<Rightarrow> Inr (c', d\<lparr>servers := servers'\<rparr>)
           | Inr (c', servers', Some k) \<Rightarrow>
               (case sync_instructions env k server (server_install_instructions d) of
                  Inl e \<Rightarrow> Inl (e, c')
                | Inr instructions' \<Rightarrow>
                    Inr (c', \<lparr>servers = servers',
                             server_install_instructions = instructions'\<rparr>))))"

text \<open>One iteration of the \<^verbatim>\<open>FOR\<close> loop: the count, the block, its handler.\<close>

fun process_entry :: "environment \<Rightarrow> server_json \<Rightarrow> counters \<times> database \<Rightarrow> counters \<times> database"
  where
  "process_entry env server (c, d) =
     (case process_server env server (c\<lparr>server_count := server_count c + 1\<rparr>) d of
        Inr (c', d') \<Rightarrow> (c', d')
      | Inl (e, c') \<Rightarrow>
          (c'\<lparr>skipped_count := skipped_count c' + 1,
              error_count := error_count c' + 1,
              error_messages :=
                error_messages c' @
                  [''Error processing server '' @ coalesce (member_text server ''name'') []
                     @ '': '' @ sqlerrm env e]\<rparr>,
           d))"

text \<open>
  The state of the \<^verbatim>\<open>WHILE\<close> loop: the counters, the tables, \<open>next_url\<close>, and the URLs
  requested so far (a log, kept for the statements about pagination).
\<close>

record run_state =
  counts :: counters
  db :: database
  next_url :: "string option"
  requests :: "string list"

text \<open>
  One iteration of the \<^verbatim>\<open>WHILE\<close> loop on the URL \<open>url\<close>: the page block and its handler.
  The delay before the next page changes no state.
\<close>

definition process_page :: "environment \<Rightarrow> string \<Rightarrow> run_state \<Rightarrow> run_state" where
  "process_page env url st =
     (case http env url of
        Inl e \<Rightarrow>
          st\<lparr>counts :=
               (counts st)\<lparr>error_count := error_count (counts st) + 1,
                           error_messages :=
                             error_messages (counts st) @
                               [''Error fetching page: '' @ sqlerrm env e]\<rparr>,
             next_url := None,
             requests := requests st @ [url]\<rparr>
      | Inr (entries, next) \<Rightarrow>
          (case fold (process_entry env) entries (counts st, db st) of
             (c, d) \<Rightarrow>
               st\<lparr>counts := c, db := d, next_url := next, requests := requests st @ [url]\<rparr>))"

text \<open>
  The \<^verbatim>\<open>WHILE next_url IS NOT NULL\<close> loop. The catalogue service decides whether it ends, so
  its result is an option: \<open>None\<close> is a run that does not return.
\<close>

partial_function (option) fetch_loop :: "environment \<Rightarrow> run_state \<Rightarrow> run_state option" where
  "fetch_loop env st =
     (case next_url st of
        None \<Rightarrow> Some st
      | Some url \<Rightarrow> fetch_loop env (process_page env url st))"

record sync_stats =
  total :: int
  added :: int
  updated :: int
  skipped :: int
  errors :: "string list"

record sync_result =
  success :: bool
  message :: string
  stats :: "sync_stats option"
  error :: "string option"

definition api_url :: string where
  "api_url = ''https://api.pulsemcp.com/v0beta/servers?count_per_page=100''"

definition initial_counters :: counters where
  "initial_counters =
     \<lparr>server_count = 0, added_count = 0, updated_count = 0, skipped_count = 0,
      error_count = 0, error_messages = []\<rparr>"

definition initial_state :: "database \<Rightarrow> run_state" where
  "initial_state d = \<lparr>counts = initial_counters, db = d, next_url = Some api_url, requests = []\<rparr>"

text \<open>The \<^verbatim>\<open>RETURN\<close> after the loop (source lines 441 to 451).\<close>

definition completed :: "counters \<Rightarrow> sync_result" where
  "completed c =
     \<lparr>success = True,
      message = ''MCP servers sync completed'',
      stats =
        Some \<lparr>total = server_count c, added = added_count c, updated = updated_count c,
              skipped = skipped_count c, errors = error_messages c\<rparr>,
      error = None\<rparr>"

text \<open>
  The function. Every exception of a page or of an entry is caught by the handler of its
  block; outside those blocks the function assigns variables, raises notices and builds
  its result, so the outermost handler (source lines 453 to 461, the result with
  \<^verbatim>\<open>success\<close> false) is never entered. The result comes with the tables the run leaves.
  A run that ends by its time limit or by a cancellation returns no result: the cases in
  which the service lets the loop end are the subject of the statements below.
\<close>

definition sync_mcp_servers_from_pulsemcp ::
  "environment \<Rightarrow> database \<Rightarrow> (sync_result \<times> database) option" where
  "sync_mcp_servers_from_pulsemcp env d =
     map_option (\<lambda>st. (completed (counts st), db st)) (fetch_loop env (initial_state d))"

declare fetch_loop.simps [code]

subsection \<open>Concrete environments, entries and tables\<close>

text \<open>
  A cast to \<^verbatim>\<open>bigint\<close> for decimal input: blanks around the number, an optional sign,
  decimal digits, within the 64-bit range.
\<close>

definition blank :: "char \<Rightarrow> bool" where
  "blank c \<longleftrightarrow> c \<in> set [CHR '' '', CHR 0x09, CHR 0x0A, CHR 0x0B, CHR 0x0C, CHR 0x0D]"

definition trim :: "string \<Rightarrow> string" where
  "trim s = rev (dropWhile blank (rev (dropWhile blank s)))"

definition digit :: "char \<Rightarrow> int option" where
  "digit c = map_of (zip ''0123456789'' [0, 1, 2, 3, 4, 5, 6, 7, 8, 9]) c"

fun digits_value :: "int \<Rightarrow> string \<Rightarrow> int option" where
  "digits_value n [] = Some n"
| "digits_value n (c # s) =
     (case digit c of None \<Rightarrow> None | Some d \<Rightarrow> digits_value (10 * n + d) s)"

definition decimal_bigint :: "string \<Rightarrow> int option" where
  "decimal_bigint s =
     (let signed =
            (case trim s of
               [] \<Rightarrow> None
             | c # r \<Rightarrow>
                 if c = CHR ''-'' then (if r = [] then None else map_option uminus (digits_value 0 r))
                 else if c = CHR ''+'' then (if r = [] then None else digits_value 0 r)
                 else digits_value 0 (c # r))
      in case signed of
           None \<Rightarrow> None
         | Some v \<Rightarrow> if - (2 ^ 63) \<le> v \<and> v < 2 ^ 63 then Some v else None)"

fun condition_name :: "exception \<Rightarrow> string" where
  "condition_name fetch_failed = ''fetch_failed''"
| "condition_name invalid_regular_expression = ''invalid_regular_expression''"
| "condition_name undefined_column = ''undefined_column''"
| "condition_name invalid_text_representation = ''invalid_text_representation''"
| "condition_name not_null_violation = ''not_null_violation''"
| "condition_name ambiguous_column = ''ambiguous_column''"
| "condition_name not_an_array = ''not_an_array''"
| "condition_name not_an_object = ''not_an_object''"

text \<open>
  The test \<^verbatim>\<open>result IS NOT NULL\<close> for a table whose columns are exactly those the program
  writes: every column of the row is non-null.
\<close>

definition row_not_null :: "server_row \<Rightarrow> bool" where
  "row_not_null r \<longleftrightarrow>
     name r \<noteq> None \<and> description r \<noteq> None \<and> category r \<noteq> None \<and> tags r \<noteq> None
     \<and> package_registry r \<noteq> None \<and> package_name r \<noteq> None
     \<and> package_download_count r \<noteq> None \<and> github_url r \<noteq> None \<and> github_stars r \<noteq> None
     \<and> external_url r \<noteq> None \<and> updated_at r \<noteq> None \<and> api_documentation r \<noteq> None
     \<and> created_at r \<noteq> None"

text \<open>
  An environment for a setting and a catalogue service: the clock at 1000, the locale that
  lowers ASCII letters only, the test on written rows as above, the condition name of an
  exception as its message.
\<close>

definition plain_env ::
  "variable_conflict \<Rightarrow> (string \<Rightarrow> exception + (server_json list \<times> string option))
     \<Rightarrow> environment" where
  "plain_env vc service =
     \<lparr>variable_conflict = vc, now = 1000, http = service, bigint = decimal_bigint,
      lower = ascii_lower, is_not_null = row_not_null, sqlerrm = condition_name\<rparr>"

text \<open>A service that fails on every request.\<close>

definition no_service :: "string \<Rightarrow> exception + (server_json list \<times> string option)" where
  "no_service url = Inl fetch_failed"

definition entry :: "(string \<times> string) list \<Rightarrow> install_json \<Rightarrow> server_json" where
  "entry members instructions =
     \<lparr>member_text = map_of members, install_instructions = instructions,
      endpoints = None, examples = None\<rparr>"

definition empty_db :: database where
  "empty_db = \<lparr>servers = [], server_install_instructions = []\<rparr>"

text \<open>
  Entries with every member the program reads as text present. The repository URL is not
  a GitHub URL: the identifier is derived from the name.
\<close>

definition complete :: "string \<Rightarrow> install_json \<Rightarrow> server_json" where
  "complete nm instructions =
     entry [(''name'', nm), (''short_description'', ''keeps notes in sync''),
            (''source_code_url'', ''https://gitlab.com/acme/'' @ nm),
            (''package_registry'', ''npm''), (''package_name'', nm),
            (''package_download_count'', ''1200''), (''github_stars'', ''42''),
            (''external_url'', ''https://example.org/'' @ nm)] instructions"

text \<open>
  Three entries of one page. The second has a GitHub repository URL, so its block raises
  while the identifier is derived.
\<close>

definition alpha :: server_json where
  "alpha = complete ''alpha'' sql_null"

definition beta :: server_json where
  "beta =
     entry [(''name'', ''beta''), (''short_description'', ''keeps notes in sync''),
            (''source_code_url'', ''https://github.com/acme/beta''),
            (''package_registry'', ''npm''), (''package_name'', ''beta''),
            (''package_download_count'', ''1200''), (''github_stars'', ''42''),
            (''external_url'', ''https://example.org/beta'')] sql_null"

definition gamma :: server_json where
  "gamma = complete ''gamma'' sql_null"

definition three_entries :: "string \<Rightarrow> exception + (server_json list \<times> string option)" where
  "three_entries url = (if url = api_url then Inr ([alpha, beta, gamma], None) else Inl fetch_failed)"

text \<open>Instruction rows of two records.\<close>

definition two_records :: "instruction_row list" where
  "two_records =
     [instruction ''alpha'' ''Old'' ''old.svg'' ''old install'' 7,
      instruction ''other'' ''Python'' ''py.ico'' ''pip install other'' 0]"

subsection \<open>Notions the statements use\<close>

text \<open>The instruction rows a record owns.\<close>

definition rows_of :: "string \<Rightarrow> instruction_row list \<Rightarrow> instruction_row list" where
  "rows_of k tbl = filter (\<lambda>r. server_id r = Some k) tbl"

text \<open>The sum of the three outcome counters.\<close>

definition outcomes :: "counters \<Rightarrow> int" where
  "outcomes c = added_count c + updated_count c + skipped_count c"

text \<open>
  The exception that the block of an entry raises: that of \<^verbatim>\<open>generate_server_id\<close>,
  or else that of \<^verbatim>\<open>extract_tags\<close>.
\<close>

definition raised_by :: "environment \<Rightarrow> server_json \<Rightarrow> exception" where
  "raised_by env server =
     (case generate_server_id (lower env) (member_text server ''name'')
             (member_text server ''source_code_url'') of
        Inl e \<Rightarrow> e
      | Inr k \<Rightarrow> undefined_column)"

text \<open>
  A chain of pages: from \<open>url\<close> the service answers with the pages of the list, each
  with a cursor to the next, and the last cursor is \<open>final\<close>. \<open>process_pages\<close> runs the
  loop's iterations along the chain.
\<close>

fun page_chain ::
  "environment \<Rightarrow> string \<Rightarrow> (server_json list \<times> string) list \<Rightarrow> string \<Rightarrow> bool" where
  "page_chain env url [] final = (url = final)"
| "page_chain env url ((entries, next) # pages) final =
     (http env url = Inr (entries, Some next) \<and> page_chain env next pages final)"

fun process_pages ::
  "environment \<Rightarrow> string \<Rightarrow> (server_json list \<times> string) list \<Rightarrow> run_state \<Rightarrow> run_state" where
  "process_pages env url [] st = st"
| "process_pages env url ((entries, next) # pages) st =
     process_pages env next pages (process_page env url st)"

text \<open>Services of two pages: the second page is the last one, or its request fails.\<close>

definition page2 :: string where
  "page2 = ''https://api.pulsemcp.com/v0beta/servers?count_per_page=100&offset=100''"

definition two_pages :: "string \<Rightarrow> exception + (server_json list \<times> string option)" where
  "two_pages url =
     (if url = api_url then Inr ([alpha], Some page2)
      else if url = page2 then Inr ([gamma], None)
      else Inl fetch_failed)"

definition second_page_fails :: "string \<Rightarrow> exception + (server_json list \<times> string option)"
  where
  "second_page_fails url =
     (if url = api_url then Inr ([alpha], Some page2) else Inl fetch_failed)"

text \<open>A service of one page with the entry \<^verbatim>\<open>alpha\<close>.\<close>

definition one_entry :: "string \<Rightarrow> exception + (server_json list \<times> string option)" where
  "one_entry url = (if url = api_url then Inr ([alpha], None) else Inl fetch_failed)"

text \<open>A row of \<^verbatim>\<open>alpha\<close> written by an earlier run, at time 5.\<close>

definition old_row :: server_row where
  "old_row =
     \<lparr>id_col = ''alpha'', name = Some ''Alpha'', description = Some ''old text'',
      category = Some ''web'', tags = Some [''old''], package_registry = Some ''pip'',
      package_name = Some ''alpha-old'', package_download_count = Some 3,
      github_url = Some ''https://gitlab.com/acme/old'', github_stars = Some 1,
      external_url = Some ''https://example.org/old'', updated_at = Some 5,
      api_documentation = Some (jobject []), created_at = Some 5\<rparr>"

text \<open>Tables an earlier run left: the row of \<^verbatim>\<open>alpha\<close>, and instruction rows of two records.\<close>

definition earlier_db :: database where
  "earlier_db = \<lparr>servers = [old_row], server_install_instructions = two_records\<rparr>"

section \<open>Properties\<close>

subsection \<open>Identity derivation\<close>

text \<open>
  Claim C4 (the fallback identifier is the lower-cased name with every run of characters
  that are not alphanumeric collapsed to one \<^verbatim>\<open>-\<close>, \<^verbatim>\<open>Demo Auth\<close> giving
  \<^verbatim>\<open>demo-auth\<close>), evaluated at the name \<^verbatim>\<open>Demo Auth\<close> without a repository URL. The
  program replaces the runs before it lower-cases, and the class of the replacement has
  no upper-case letter: \<^verbatim>\<open>D\<close> and \<^verbatim>\<open> A\<close> are runs, and the identifier is
  \<^verbatim>\<open>-emo-uth\<close>, lower-cased, in every locale. The specification's order of the two steps
  gives \<^verbatim>\<open>demo-auth\<close>.
\<close>

theorem fallback_id_Demo_Auth:
  "generate_server_id lw (Some ''Demo Auth'') None = Inr (Some (lw ''-emo-uth''))
   \<and> generate_server_id ascii_lower (Some ''Demo Auth'') None = Inr (Some ''-emo-uth'')
   \<and> fallback_id_spec ascii_lower ''Demo Auth'' = ''demo-auth''"
  by (simp add: generate_server_id_def fallback_id_def fallback_id_spec_def ascii_lower_def
      lower_char_def lower_alnum_def)

lemma no_upper_case:
  "list_all (\<lambda>c. c \<notin> set ''ABCDEFGHIJKLMNOPQRSTUVWXYZ'') ''abcdefghijklmnopqrstuvwxyz0123456789''"
  "CHR ''-'' \<notin> set ''ABCDEFGHIJKLMNOPQRSTUVWXYZ''"
  by code_simp+

lemma lower_char_other:
  assumes "c \<notin> set ''ABCDEFGHIJKLMNOPQRSTUVWXYZ''"
  shows "lower_char c = c"
proof -
  let ?U = "''ABCDEFGHIJKLMNOPQRSTUVWXYZ''" and ?L = "''abcdefghijklmnopqrstuvwxyz''"
  have "length ?U = length ?L" by simp
  then have "map fst (zip ?U ?L) = ?U" by (rule map_fst_zip)
  then have e: "fst ` set (zip ?U ?L) = set ?U" by (simp only: set_map [symmetric])
  have "c \<notin> fst ` set (zip ?U ?L)" unfolding e by (rule assms)
  then have "map_of (zip ?U ?L) c = None" by (rule map_of_eq_None_iff [THEN iffD2])
  then show ?thesis by (simp only: lower_char_def option.case)
qed

lemma lower_char_fixes:
  assumes "lower_alnum c \<or> c = CHR ''-''"
  shows "lower_char c = c"
proof (rule lower_char_other)
  from assms show "c \<notin> set ''ABCDEFGHIJKLMNOPQRSTUVWXYZ''"
  proof
    assume "lower_alnum c"
    then have "c \<in> set ''abcdefghijklmnopqrstuvwxyz0123456789''"
      by (simp only: lower_alnum_def)
    with no_upper_case(1) [unfolded list_all_iff] show ?thesis by (rule bspec)
  next
    assume c: "c = CHR ''-''"
    show ?thesis unfolding c by (rule no_upper_case(2))
  qed
qed

lemma replace_runs_chars: "c \<in> set (replace_runs s) \<Longrightarrow> lower_alnum c \<or> c = CHR ''-''"
proof (induction s rule: replace_runs.induct)
  case 1
  then show ?case by simp
next
  case (2 d s)
  show ?case
  proof (cases "lower_alnum d")
    case True
    with "2.prems" have "c = d \<or> c \<in> set (replace_runs s)" by simp
    with True "2.IH"(1) show ?thesis by blast
  next
    case False
    with "2.prems" have
      "c = CHR ''-'' \<or> c \<in> set (replace_runs (dropWhile (\<lambda>d. \<not> lower_alnum d) s))"
      by simp
    with False "2.IH"(2) show ?thesis by blast
  qed
qed

text \<open>
  What the fallback computes in general, in a locale that lowers ASCII letters only: the
  replacement leaves only characters of \<^verbatim>\<open>[a-z0-9]\<close> and \<^verbatim>\<open>-\<close>, so the lower-casing
  after it changes nothing; and for a name without upper-case letters the identifier is
  the specification's.
\<close>

lemma fallback_id_no_lowering: "fallback_id ascii_lower (Some n) = Some (replace_runs n)"
proof -
  have "map lower_char (replace_runs n) = replace_runs n"
    by (rule map_idI) (blast dest: replace_runs_chars intro: lower_char_fixes)
  then show ?thesis by (simp add: fallback_id_def ascii_lower_def)
qed

lemma fallback_id_lower_case_name:
  assumes "ascii_lower n = n"
  shows "generate_server_id ascii_lower (Some n) None = Inr (Some (fallback_id_spec ascii_lower n))"
  using assms by (simp add: generate_server_id_def fallback_id_no_lowering fallback_id_spec_def)

text \<open>
  The other branch: for a repository URL that matches the GitHub pattern the function
  reaches the regular expression of line 96 and raises, whatever the name.
\<close>

lemma generate_server_id_github:
  assumes "regexp_matches url = Some m"
  shows "generate_server_id lw nm (Some url) = Inl invalid_regular_expression"
  using assms
  by (simp add: generate_server_id_def regexp_replace_other_def split: prod.splits)

lemma generate_server_id_raises:
  "generate_server_id lw nm url = Inl e \<Longrightarrow> e = invalid_regular_expression"
  by (auto simp: generate_server_id_def regexp_replace_other_def
      split: option.splits prod.splits)

subsection \<open>The classifier\<close>

lemma like_contains_sublist: "like_contains s pat \<longleftrightarrow> sublist pat s"
  by (induction s) (simp_all add: sublist_Cons_right)

text \<open>
  Claim C6 as stated (the lower-cased name and description are scanned for the keywords
  of the ordered rules) fails: the program looks for \<^verbatim>\<open>login\<close>, \<^verbatim>\<open>database\<close> and every
  later keyword in the description only. The name \<^verbatim>\<open>Login Portal\<close> with the description
  \<^verbatim>\<open>a portal\<close>, and the name \<^verbatim>\<open>Database Manager\<close> with the description
  \<^verbatim>\<open>manages things\<close>, have the category \<^verbatim>\<open>other\<close>; scanning both fields gives
  \<^verbatim>\<open>auth\<close> and \<^verbatim>\<open>database\<close>.
\<close>

theorem determine_category_name_counterexample:
  "determine_category ascii_lower (Some ''Login Portal'') (Some ''a portal'') = ''other''
   \<and> determine_category_spec ascii_lower (Some ''Login Portal'') (Some ''a portal'') = ''auth''
   \<and> determine_category ascii_lower (Some ''Database Manager'') (Some ''manages things'')
       = ''other''
   \<and> determine_category_spec ascii_lower (Some ''Database Manager'') (Some ''manages things'')
       = ''database''"
  by code_simp

text \<open>
  Claim C6 as amended: for every name and description, and every locale, the category is
  the one of the first keyword rule that matches, \<^verbatim>\<open>other\<close> if none does, where each
  keyword is looked up in the lower-cased field in which the program looks it up. The
  rules, in order: \<^verbatim>\<open>auth\<close> in the name or the description, or \<^verbatim>\<open>login\<close> in the
  description, give \<^verbatim>\<open>auth\<close>; \<^verbatim>\<open>database\<close> or \<^verbatim>\<open>storage\<close> in the description, or
  \<^verbatim>\<open>db\<close> in the name, give \<^verbatim>\<open>database\<close>; \<^verbatim>\<open>ai\<close>, \<^verbatim>\<open>llm\<close> or \<^verbatim>\<open>language model\<close> in
  the description give \<^verbatim>\<open>ai\<close>; \<^verbatim>\<open>file\<close> or \<^verbatim>\<open>document\<close> in the description give
  \<^verbatim>\<open>files\<close>; \<^verbatim>\<open>web\<close> or \<^verbatim>\<open>http\<close> in the description give \<^verbatim>\<open>web\<close>. In particular a
  description with \<^verbatim>\<open>database\<close> and no keyword of the first rule gives \<^verbatim>\<open>database\<close>, and
  a name and description in which no rule finds its keyword give \<^verbatim>\<open>other\<close>.
\<close>

theorem determine_category_rules:
  "(let lc_name = map_option lw nm;
        lc_desc = lw (coalesce descr []);
        auth_rule = (name_like lc_name ''auth'' \<or> like_contains lc_desc ''auth''
                       \<or> like_contains lc_desc ''login'');
        database_rule = (like_contains lc_desc ''database'' \<or> like_contains lc_desc ''storage''
                           \<or> name_like lc_name ''db'');
        ai_rule = (like_contains lc_desc ''ai'' \<or> like_contains lc_desc ''llm''
                     \<or> like_contains lc_desc ''language model'');
        files_rule = (like_contains lc_desc ''file'' \<or> like_contains lc_desc ''document'');
        web_rule = (like_contains lc_desc ''web'' \<or> like_contains lc_desc ''http'')
    in (auth_rule \<longrightarrow> determine_category lw nm descr = ''auth'')
       \<and> (\<not> auth_rule \<and> database_rule \<longrightarrow> determine_category lw nm descr = ''database'')
       \<and> (\<not> auth_rule \<and> \<not> database_rule \<and> ai_rule
            \<longrightarrow> determine_category lw nm descr = ''ai'')
       \<and> (\<not> auth_rule \<and> \<not> database_rule \<and> \<not> ai_rule \<and> files_rule
            \<longrightarrow> determine_category lw nm descr = ''files'')
       \<and> (\<not> auth_rule \<and> \<not> database_rule \<and> \<not> ai_rule \<and> \<not> files_rule \<and> web_rule
            \<longrightarrow> determine_category lw nm descr = ''web'')
       \<and> (\<not> auth_rule \<and> \<not> database_rule \<and> \<not> ai_rule \<and> \<not> files_rule \<and> \<not> web_rule
            \<longrightarrow> determine_category lw nm descr = ''other''))"
  by (simp add: determine_category_def Let_def)

theorem determine_category_rules_witness:
  "name_like (map_option ascii_lower (Some ''AuthKit'')) ''auth''
   \<and> determine_category ascii_lower (Some ''AuthKit'') (Some ''a toolkit'') = ''auth''
   \<and> name_like (map_option ascii_lower (Some ''TinyDB'')) ''db''
   \<and> determine_category ascii_lower (Some ''TinyDB'') (Some ''keeps records'') = ''database''
   \<and> like_contains (ascii_lower (coalesce (Some ''A Database of things'') [])) ''database''
   \<and> determine_category ascii_lower (Some ''Records'') (Some ''A Database of things'')
       = ''database''
   \<and> like_contains (ascii_lower (coalesce (Some ''Serves HTTP pages'') [])) ''http''
   \<and> determine_category ascii_lower (Some ''Pages'') (Some ''Serves HTTP pages'') = ''web''
   \<and> determine_category ascii_lower (Some ''Thing'') (Some ''Misc notes'') = ''other''"
proof -
  let ?n = "\<lambda>nm. map_option ascii_lower (Some nm)"
  let ?d = "\<lambda>descr. ascii_lower (coalesce (Some descr) [])"
  have a: "name_like (?n ''AuthKit'') ''auth''" by code_simp
  have b: "name_like (?n ''TinyDB'') ''db''"
    "\<not> (name_like (?n ''TinyDB'') ''auth'' \<or> like_contains (?d ''keeps records'') ''auth''
         \<or> like_contains (?d ''keeps records'') ''login'')"
    by code_simp+
  have c: "like_contains (?d ''A Database of things'') ''database''"
    "\<not> (name_like (?n ''Records'') ''auth'' \<or> like_contains (?d ''A Database of things'') ''auth''
         \<or> like_contains (?d ''A Database of things'') ''login'')"
    by code_simp+
  have d: "like_contains (?d ''Serves HTTP pages'') ''http''"
    "\<not> (name_like (?n ''Pages'') ''auth'' \<or> like_contains (?d ''Serves HTTP pages'') ''auth''
         \<or> like_contains (?d ''Serves HTTP pages'') ''login'')"
    "\<not> (like_contains (?d ''Serves HTTP pages'') ''database''
         \<or> like_contains (?d ''Serves HTTP pages'') ''storage''
         \<or> name_like (?n ''Pages'') ''db'')"
    "\<not> (like_contains (?d ''Serves HTTP pages'') ''ai''
         \<or> like_contains (?d ''Serves HTTP pages'') ''llm''
         \<or> like_contains (?d ''Serves HTTP pages'') ''language model'')"
    "\<not> (like_contains (?d ''Serves HTTP pages'') ''file''
         \<or> like_contains (?d ''Serves HTTP pages'') ''document'')"
    by code_simp+
  have e: "\<not> (name_like (?n ''Thing'') ''auth'' \<or> like_contains (?d ''Misc notes'') ''auth''
         \<or> like_contains (?d ''Misc notes'') ''login'')"
    "\<not> (like_contains (?d ''Misc notes'') ''database''
         \<or> like_contains (?d ''Misc notes'') ''storage'' \<or> name_like (?n ''Thing'') ''db'')"
    "\<not> (like_contains (?d ''Misc notes'') ''ai'' \<or> like_contains (?d ''Misc notes'') ''llm''
         \<or> like_contains (?d ''Misc notes'') ''language model'')"
    "\<not> (like_contains (?d ''Misc notes'') ''file''
         \<or> like_contains (?d ''Misc notes'') ''document'')"
    "\<not> (like_contains (?d ''Misc notes'') ''web'' \<or> like_contains (?d ''Misc notes'') ''http'')"
    by code_simp+
  note r = determine_category_rules [where lw = ascii_lower, unfolded Let_def]
  from a r [of "Some ''AuthKit''" "Some ''a toolkit''"]
  have a': "determine_category ascii_lower (Some ''AuthKit'') (Some ''a toolkit'') = ''auth''"
    by blast
  from b r [of "Some ''TinyDB''" "Some ''keeps records''"]
  have b': "determine_category ascii_lower (Some ''TinyDB'') (Some ''keeps records'')
              = ''database''"
    by blast
  from c r [of "Some ''Records''" "Some ''A Database of things''"]
  have c': "determine_category ascii_lower (Some ''Records'') (Some ''A Database of things'')
              = ''database''"
    by blast
  from d r [of "Some ''Pages''" "Some ''Serves HTTP pages''"]
  have d': "determine_category ascii_lower (Some ''Pages'') (Some ''Serves HTTP pages'')
              = ''web''"
    by blast
  from e r [of "Some ''Thing''" "Some ''Misc notes''"]
  have e': "determine_category ascii_lower (Some ''Thing'') (Some ''Misc notes'') = ''other''"
    by blast
  from a a' b(1) b' c(1) c' d(1) d' e' show ?thesis by blast
qed

subsection \<open>The tags\<close>

lemma extract_tags_raises: "extract_tags lw nm descr = Inl undefined_column"
  by (simp add: extract_tags_def select_distinct_words_def)

text \<open>
  Claim C7 (the tag list holds the tokens longer than 2 characters that are no stop words,
  without duplicates, at most 10, in first-seen order), evaluated at the name
  \<^verbatim>\<open>zeta alpha\<close> without a description. The function returns no list: for every name
  and description its query raises (the column \<^verbatim>\<open>unnest\<close> does not exist). The
  specification's tags for that name are \<^verbatim>\<open>zeta\<close>, \<^verbatim>\<open>alpha\<close>.
\<close>

theorem extract_tags_returns_no_list:
  "extract_tags lw nm descr = Inl undefined_column
   \<and> extract_tags ascii_lower (Some ''zeta alpha'') None = Inl undefined_column
   \<and> extract_tags_spec ascii_lower (Some ''zeta alpha'') None = [''zeta'', ''alpha'']"
proof -
  have "extract_tags_spec ascii_lower (Some ''zeta alpha'') None = [''zeta'', ''alpha'']"
    by code_simp
  then show ?thesis
    by (simp add: extract_tags_def select_distinct_words_def)
qed

subsection \<open>Pagination and page failures\<close>

lemma fetch_loop_stop: "next_url st = None \<Longrightarrow> fetch_loop env st = Some st"
  by (subst fetch_loop.simps) simp

lemma fetch_loop_step:
  "next_url st = Some url \<Longrightarrow> fetch_loop env st = fetch_loop env (process_page env url st)"
  by (subst fetch_loop.simps) simp

lemma process_page_ok:
  assumes "http env url = Inr (entries, next)"
  shows "next_url (process_page env url st) = next"
    and "requests (process_page env url st) = requests st @ [url]"
  using assms by (simp_all add: process_page_def split: prod.splits)

lemma process_page_failed:
  assumes "http env url = Inl e"
  shows "process_page env url st =
     st\<lparr>counts := (counts st)\<lparr>error_count := error_count (counts st) + 1,
                           error_messages := error_messages (counts st) @
                               [''Error fetching page: '' @ sqlerrm env e]\<rparr>,
        next_url := None, requests := requests st @ [url]\<rparr>"
  using assms by (simp add: process_page_def)

lemma page_chain_final: "page_chain env url pages final \<Longrightarrow> final = last (url # map snd pages)"
  by (induction env url pages final rule: page_chain.induct) auto

lemma fetch_loop_chain:
  assumes "page_chain env url pages final" and "next_url st = Some url"
  shows "fetch_loop env st = fetch_loop env (process_pages env url pages st)
         \<and> next_url (process_pages env url pages st) = Some final
         \<and> requests (process_pages env url pages st) = requests st @ butlast (url # map snd pages)"
  using assms
proof (induction env url pages final arbitrary: st rule: page_chain.induct)
  case (1 env url final)
  then show ?case by simp
next
  case (2 env url entries "next" pages final)
  from "2.prems" have h: "http env url = Inr (entries, Some next)"
    and c: "page_chain env next pages final" by simp_all
  let ?st = "process_page env url st"
  have n: "next_url ?st = Some next" and r: "requests ?st = requests st @ [url]"
    using process_page_ok [OF h] by simp_all
  from "2.IH" [OF c n] r "2.prems"(2) show ?case
    by (simp add: fetch_loop_step)
qed

text \<open>
  Claim C9: for every finite chain of pages the loop ends exactly at the page that returns
  no next cursor. From a state whose cursor is \<open>url\<close>, with the service answering along
  a chain of pages to \<open>final\<close> and the page of \<open>final\<close> carrying no cursor, the loop
  returns; it has processed every page of the chain and then the last one, it has requested
  the URLs of the chain in order, each once, and nothing after \<open>final\<close>. For pages P1
  (next P2) and P2 (no next) these are exactly two requests.
\<close>

theorem pagination_terminates:
  assumes "next_url st = Some url"
    and "page_chain env url pages final"
    and "http env final = Inr (entries, None)"
  shows "fetch_loop env st = Some (process_page env final (process_pages env url pages st))
         \<and> next_url (process_page env final (process_pages env url pages st)) = None
         \<and> requests (process_page env final (process_pages env url pages st))
             = requests st @ url # map snd pages"
proof -
  let ?st = "process_pages env url pages st"
  from fetch_loop_chain [OF assms(2) assms(1)]
  have a: "fetch_loop env st = fetch_loop env ?st" and b: "next_url ?st = Some final"
    and c: "requests ?st = requests st @ butlast (url # map snd pages)" by simp_all
  have n: "next_url (process_page env final ?st) = None"
    and r: "requests (process_page env final ?st) = requests ?st @ [final]"
    using process_page_ok [OF assms(3)] by simp_all
  have "butlast (url # map snd pages) @ [final] = url # map snd pages"
    using page_chain_final [OF assms(2)] append_butlast_last_id [of "url # map snd pages"]
    by simp
  with a b c n r show ?thesis
    by (simp add: fetch_loop_step fetch_loop_stop)
qed


theorem pagination_terminates_witness:
  "next_url (initial_state empty_db) = Some api_url
   \<and> page_chain (plain_env use_column two_pages) api_url [([alpha], page2)] page2
   \<and> http (plain_env use_column two_pages) page2 = Inr ([gamma], None)
   \<and> map_option requests (fetch_loop (plain_env use_column two_pages) (initial_state empty_db))
       = Some [api_url, page2]
   \<and> map_option next_url (fetch_loop (plain_env use_column two_pages) (initial_state empty_db))
       = Some None"
proof -
  have h1: "next_url (initial_state empty_db) = Some api_url"
    by (simp add: initial_state_def)
  have ne: "page2 \<noteq> api_url" by (simp add: page2_def api_url_def)
  have h2: "page_chain (plain_env use_column two_pages) api_url [([alpha], page2)] page2"
    by (simp add: plain_env_def two_pages_def)
  have h3: "http (plain_env use_column two_pages) page2 = Inr ([gamma], None)"
    using ne by (simp add: plain_env_def two_pages_def)
  from pagination_terminates [OF h1 h2 h3] h1 h2 h3 show ?thesis
    by (simp add: initial_state_def)
qed

text \<open>
  Claim C1 as amended: for every run in which the request of a page raises, after any
  chain of pages before it, the run stops pagination there (the failing URL is the last
  one requested and the cursor is cleared) and returns a result with \<^verbatim>\<open>success\<close> true:
  its statistics are those accumulated over the pages before, and the error of the page is
  appended to their list of messages. The tables are as the earlier pages left them.
\<close>

theorem page_failure_result:
  assumes "page_chain env api_url pages url" and "http env url = Inl e"
  shows "fetch_loop env (initial_state d) =
           Some ((process_pages env api_url pages (initial_state d))
                   \<lparr>counts :=
                      (counts (process_pages env api_url pages (initial_state d)))
                        \<lparr>error_count :=
                           error_count (counts (process_pages env api_url pages (initial_state d))) + 1,
                         error_messages :=
                           error_messages (counts (process_pages env api_url pages (initial_state d)))
                             @ [''Error fetching page: '' @ sqlerrm env e]\<rparr>,
                    next_url := None,
                    requests := requests (process_pages env api_url pages (initial_state d)) @ [url]\<rparr>)
         \<and> sync_mcp_servers_from_pulsemcp env d =
           Some (\<lparr>success = True,
                  message = ''MCP servers sync completed'',
                  stats =
                    Some \<lparr>total = server_count (counts (process_pages env api_url pages (initial_state d))),
                          added = added_count (counts (process_pages env api_url pages (initial_state d))),
                          updated = updated_count (counts (process_pages env api_url pages (initial_state d))),
                          skipped = skipped_count (counts (process_pages env api_url pages (initial_state d))),
                          errors =
                            error_messages (counts (process_pages env api_url pages (initial_state d)))
                              @ [''Error fetching page: '' @ sqlerrm env e]\<rparr>,
                  error = None\<rparr>,
                 db (process_pages env api_url pages (initial_state d)))"
proof -
  let ?st = "process_pages env api_url pages (initial_state d)"
  have i: "next_url (initial_state d) = Some api_url" by (simp add: initial_state_def)
  from fetch_loop_chain [OF assms(1) i]
  have a: "fetch_loop env (initial_state d) = fetch_loop env ?st"
    and b: "next_url ?st = Some url" by simp_all
  have c: "fetch_loop env ?st = Some (process_page env url ?st)"
    using b by (simp add: fetch_loop_step fetch_loop_stop process_page_failed [OF assms(2)])
  show ?thesis
    by (simp add: sync_mcp_servers_from_pulsemcp_def a c process_page_failed [OF assms(2)]
        completed_def)
qed

text \<open>
  Claim C1 as stated (a failure result, \<^verbatim>\<open>success\<close> false) fails: when the request of
  the first page raises, the function returns \<^verbatim>\<open>success\<close> true, the message of a
  completed run, and statistics of no entry with the page error in their list.
\<close>

theorem page_failure_counterexample:
  "map_option fst (sync_mcp_servers_from_pulsemcp (plain_env conflict_error no_service) empty_db)
     = Some \<lparr>success = True,
             message = ''MCP servers sync completed'',
             stats = Some \<lparr>total = 0, added = 0, updated = 0, skipped = 0,
                           errors = [''Error fetching page: fetch_failed'']\<rparr>,
             error = None\<rparr>"
  by code_simp

theorem page_failure_result_witness:
  "page_chain (plain_env conflict_error second_page_fails) api_url [([alpha], page2)] page2
   \<and> http (plain_env conflict_error second_page_fails) page2 = Inl fetch_failed
   \<and> map_option (success \<circ> fst)
         (sync_mcp_servers_from_pulsemcp (plain_env conflict_error second_page_fails) empty_db)
       = Some True
   \<and> map_option requests
         (fetch_loop (plain_env conflict_error second_page_fails) (initial_state empty_db))
       = Some [api_url, page2]
   \<and> map_option (stats \<circ> fst)
         (sync_mcp_servers_from_pulsemcp (plain_env conflict_error second_page_fails) empty_db)
       = Some (Some \<lparr>total = 1, added = 0, updated = 0, skipped = 1,
                       errors = [''Error processing server alpha: undefined_column'',
                                 ''Error fetching page: fetch_failed'']\<rparr>)"
proof -
  have ne: "page2 \<noteq> api_url" by (simp add: page2_def api_url_def)
  have h1: "page_chain (plain_env conflict_error second_page_fails) api_url [([alpha], page2)] page2"
    by (simp add: plain_env_def second_page_fails_def)
  have h2: "http (plain_env conflict_error second_page_fails) page2 = Inl fetch_failed"
    using ne by (simp add: plain_env_def second_page_fails_def)
  have r: "requests (process_page (plain_env conflict_error second_page_fails) api_url
             (initial_state empty_db)) = [api_url]"
    by (simp add: process_page_def plain_env_def second_page_fails_def initial_state_def
        split: prod.splits)
  have s: "map_option (stats \<circ> fst)
         (sync_mcp_servers_from_pulsemcp (plain_env conflict_error second_page_fails) empty_db)
       = Some (Some \<lparr>total = 1, added = 0, updated = 0, skipped = 1,
                       errors = [''Error processing server alpha: undefined_column'',
                                 ''Error fetching page: fetch_failed'']\<rparr>)"
    by code_simp
  from page_failure_result [OF h1 h2, of empty_db] h1 h2 r have
    "map_option (success \<circ> fst)
         (sync_mcp_servers_from_pulsemcp (plain_env conflict_error second_page_fails) empty_db)
       = Some True
     \<and> map_option requests
         (fetch_loop (plain_env conflict_error second_page_fails) (initial_state empty_db))
       = Some [api_url, page2]"
    by simp
  with h1 h2 s show ?thesis by blast
qed

subsection \<open>The entries of a page\<close>

text \<open>
  The block of an entry always raises: in \<^verbatim>\<open>generate_server_id\<close> for a GitHub URL, and
  otherwise in \<^verbatim>\<open>extract_tags\<close>, which line 252 calls before either write. The handler of
  the block counts the entry as skipped and as an error, and the tables are as before.
\<close>

lemma reconcile_raises: "reconcile env server k c tbl = Inl undefined_column"
  by (simp add: reconcile_def extract_tags_raises)

lemma process_server_raises: "process_server env server c d = Inl (raised_by env server, c)"
  by (simp add: process_server_def raised_by_def reconcile_raises split: sum.splits)

lemma process_entry_skips:
  "process_entry env server (c, d) =
     (c\<lparr>server_count := server_count c + 1,
        skipped_count := skipped_count c + 1,
        error_count := error_count c + 1,
        error_messages :=
          error_messages c @
            [''Error processing server '' @ coalesce (member_text server ''name'') []
               @ '': '' @ sqlerrm env (raised_by env server)]\<rparr>,
      d)"
  by (simp add: process_server_raises)

lemma fold_entries_tables: "snd (fold (process_entry env) entries s) = snd s"
proof (induction entries arbitrary: s)
  case Nil
  then show ?case by simp
next
  case (Cons server entries)
  obtain c d where s: "s = (c, d)" by (cases s)
  show ?case unfolding s by (simp add: process_entry_skips Cons.IH del: process_entry.simps)
qed

lemma fold_entries_balance:
  "server_count (fst (fold (process_entry env) entries s))
     - outcomes (fst (fold (process_entry env) entries s))
   = server_count (fst s) - outcomes (fst s)"
proof (induction entries arbitrary: s)
  case Nil
  then show ?case by simp
next
  case (Cons server entries)
  obtain c d where s: "s = (c, d)" by (cases s)
  let ?s' = "process_entry env server (c, d)"
  have "server_count (fst ?s') - outcomes (fst ?s') = server_count c - outcomes c"
    by (simp add: process_entry_skips outcomes_def del: process_entry.simps)
  with Cons.IH [of ?s'] show ?case unfolding s by (simp del: process_entry.simps)
qed

lemma process_page_tables: "db (process_page env url st) = db st"
proof (cases "http env url")
  case (Inl e)
  then show ?thesis by (simp add: process_page_def)
next
  case (Inr page)
  obtain entries "next" where page: "page = (entries, next)" by (cases page)
  have "snd (fold (process_entry env) entries (counts st, db st)) = db st"
    by (simp add: fold_entries_tables)
  with Inr page show ?thesis by (auto simp: process_page_def split: prod.splits)
qed

lemma process_page_balance:
  "server_count (counts (process_page env url st)) - outcomes (counts (process_page env url st))
   = server_count (counts st) - outcomes (counts st)"
proof (cases "http env url")
  case (Inl e)
  then show ?thesis by (simp add: process_page_def outcomes_def)
next
  case (Inr page)
  obtain entries "next" where page: "page = (entries, next)" by (cases page)
  have "server_count (fst (fold (process_entry env) entries (counts st, db st)))
          - outcomes (fst (fold (process_entry env) entries (counts st, db st)))
        = server_count (counts st) - outcomes (counts st)"
    using fold_entries_balance [of env entries "(counts st, db st)"] by simp
  with Inr page show ?thesis by (auto simp: process_page_def split: prod.splits)
qed

lemma process_pages_balance:
  "server_count (counts (process_pages env url pages st))
     - outcomes (counts (process_pages env url pages st))
   = server_count (counts st) - outcomes (counts st)"
  by (induction env url pages st rule: process_pages.induct) (simp_all add: process_page_balance)

text \<open>
  Claim C10: after every iteration of the entry loop the count of entries seen equals the
  sum of the added, updated and skipped counts, and every entry is counted in exactly one
  of the three. An iteration adds one to the count of entries seen and one to the skipped
  count, and leaves the added and updated counts alone, so the sum of the three grows by
  one with it; the difference between the count seen and the sum is the same after the
  entries of a page, and after a page whether its request succeeds or fails; and it is 0
  after any pages of a run, which starts with all counts at 0.
\<close>

theorem every_entry_counted_once:
  "server_count (fst (process_entry env server (c, d))) = server_count c + 1
   \<and> added_count (fst (process_entry env server (c, d))) = added_count c
   \<and> updated_count (fst (process_entry env server (c, d))) = updated_count c
   \<and> skipped_count (fst (process_entry env server (c, d))) = skipped_count c + 1
   \<and> outcomes (fst (process_entry env server (c, d))) = outcomes c + 1
   \<and> server_count (fst (fold (process_entry env) entries (c, d)))
         - outcomes (fst (fold (process_entry env) entries (c, d)))
       = server_count c - outcomes c
   \<and> server_count (counts (process_page env url st)) - outcomes (counts (process_page env url st))
       = server_count (counts st) - outcomes (counts st)
   \<and> server_count (counts (process_pages env url pages (initial_state d)))
       = outcomes (counts (process_pages env url pages (initial_state d)))"
proof -
  have "server_count (initial_counters) - outcomes (initial_counters) = 0"
    by (simp add: initial_counters_def outcomes_def)
  then have "server_count (counts (process_pages env url pages (initial_state d)))
          - outcomes (counts (process_pages env url pages (initial_state d))) = 0"
    by (simp add: process_pages_balance initial_state_def)
  then have "server_count (counts (process_pages env url pages (initial_state d)))
          = outcomes (counts (process_pages env url pages (initial_state d)))"
    by simp
  moreover have "server_count (fst (fold (process_entry env) entries (c, d)))
         - outcomes (fst (fold (process_entry env) entries (c, d)))
       = server_count c - outcomes c"
    using fold_entries_balance [of env entries "(c, d)"] by simp
  moreover have "server_count (fst (process_entry env server (c, d))) = server_count c + 1
      \<and> added_count (fst (process_entry env server (c, d))) = added_count c
      \<and> updated_count (fst (process_entry env server (c, d))) = updated_count c
      \<and> skipped_count (fst (process_entry env server (c, d))) = skipped_count c + 1
      \<and> outcomes (fst (process_entry env server (c, d))) = outcomes c + 1"
    by (simp add: process_entry_skips outcomes_def del: process_entry.simps)
  moreover note process_page_balance [of env url st]
  ultimately show ?thesis by blast
qed

text \<open>
  Claim C5 (of three entries of a page of which the second raises, the first and the third
  are processed successfully, and the run reports 2 successes and 1 error or skip),
  evaluated on a page of three entries whose second has a GitHub repository URL, so that
  its identity derivation raises, with empty tables. The run does not abort and counts
  the three entries, but none is a success: the first and the third raise in
  \<^verbatim>\<open>extract_tags\<close>. The run reports 0 added, 0 updated, 3 skipped and three messages,
  and the table of servers is empty after it.
\<close>

theorem three_entries_run:
  "map_option fst (sync_mcp_servers_from_pulsemcp (plain_env conflict_error three_entries) empty_db)
     = Some \<lparr>success = True,
             message = ''MCP servers sync completed'',
             stats = Some \<lparr>total = 3, added = 0, updated = 0, skipped = 3,
                           errors = [''Error processing server alpha: undefined_column'',
                                     ''Error processing server beta: invalid_regular_expression'',
                                     ''Error processing server gamma: undefined_column'']\<rparr>,
             error = None\<rparr>
   \<and> map_option snd (sync_mcp_servers_from_pulsemcp (plain_env conflict_error three_entries) empty_db)
       = Some empty_db"
  by code_simp

text \<open>
  Claim C8 (the update path refreshes the last-update timestamp and the mutable columns of
  an existing row and keeps its creation timestamp; the insert path sets both timestamps
  to the current time), evaluated on the entry \<^verbatim>\<open>alpha\<close> at time 1000. No entry changes
  the table of servers. With a row of \<^verbatim>\<open>alpha\<close> written at time 5 the run leaves that
  row as it was, its last-update timestamp still 5; with an empty table the run inserts
  no row.
\<close>

theorem servers_never_written:
  "servers (snd (process_entry env server (c, d))) = servers d
   \<and> map_option (servers \<circ> snd)
         (sync_mcp_servers_from_pulsemcp (plain_env conflict_error one_entry) earlier_db)
       = Some [old_row]
   \<and> updated_at old_row = Some 5
   \<and> now (plain_env conflict_error one_entry) = 1000
   \<and> map_option (servers \<circ> snd)
         (sync_mcp_servers_from_pulsemcp (plain_env conflict_error one_entry) empty_db)
       = Some []"
proof -
  have "map_option (servers \<circ> snd)
         (sync_mcp_servers_from_pulsemcp (plain_env conflict_error one_entry) earlier_db)
       = Some [old_row]"
    by code_simp
  moreover have "map_option (servers \<circ> snd)
         (sync_mcp_servers_from_pulsemcp (plain_env conflict_error one_entry) empty_db)
       = Some []"
    by code_simp
  ultimately show ?thesis
    by (simp add: process_entry_skips old_row_def plain_env_def del: process_entry.simps)
qed

subsection \<open>The install instructions\<close>

text \<open>
  Where the pass over the instructions would begin: under the default setting of
  \<^verbatim>\<open>plpgsql.variable_conflict\<close> its \<^verbatim>\<open>DELETE\<close> is rejected as ambiguous.
\<close>

lemma sync_instructions_ambiguous:
  "variable_conflict env = conflict_error \<Longrightarrow> sync_instructions env k server tbl = Inl ambiguous_column"
  by (simp add: sync_instructions_def delete_instructions_def)

text \<open>
  Claim C3 (after the pass the instruction rows of the record are exactly those derived
  from the latest entry, with no residue and with sort orders from 0 on), evaluated on the
  entry \<^verbatim>\<open>alpha\<close>, of registry \<^verbatim>\<open>npm\<close> and without supplied instructions, with a row
  of \<^verbatim>\<open>alpha\<close> of sort order 7 in the table. The specification's rows are the defaults
  of the registry, \<^verbatim>\<open>npm install alpha\<close> with sort order 0 and \<^verbatim>\<open>yarn add alpha\<close> with
  sort order 1. After the run the table is as before: the row of the earlier run is the
  only row of \<^verbatim>\<open>alpha\<close>, with its sort order 7.
\<close>

theorem instruction_rows_not_replaced:
  "map_option (rows_of ''alpha'' \<circ> server_install_instructions \<circ> snd)
       (sync_mcp_servers_from_pulsemcp (plain_env conflict_error one_entry) earlier_db)
     = Some [instruction ''alpha'' ''Old'' ''old.svg'' ''old install'' 7]
   \<and> default_instructions ''alpha'' ''npm'' ''alpha''
     = [instruction ''alpha'' ''Node.js''
          ''https://nodejs.org/static/images/logos/nodejs-new-pantone-black.svg''
          ''npm install alpha'' 0,
        instruction ''alpha'' ''Yarn'' ''https://yarnpkg.com/favicon.svg'' ''yarn add alpha'' 1]
   \<and> member_text alpha ''package_registry'' = Some ''npm''
   \<and> member_text alpha ''package_name'' = Some ''alpha''
   \<and> install_instructions alpha = sql_null"
proof -
  have "map_option (rows_of ''alpha'' \<circ> server_install_instructions \<circ> snd)
       (sync_mcp_servers_from_pulsemcp (plain_env conflict_error one_entry) earlier_db)
     = Some [instruction ''alpha'' ''Old'' ''old.svg'' ''old install'' 7]"
    by code_simp
  then show ?thesis
    by (simp add: default_instructions_def alpha_def complete_def entry_def)
qed

text \<open>
  Claim C2: for every record \<open>k'\<close> other than the one an entry is processed for, the
  instruction rows of \<open>k'\<close> are unchanged after the entry, and after a page of entries.
  The iteration of an entry deletes no instruction row at all: it raises before its
  \<^verbatim>\<open>DELETE\<close> statement, so the whole table of instructions is as before, the rows of
  every record with it.
\<close>

theorem instruction_rows_of_others_unchanged:
  "server_install_instructions (snd (process_entry env server (c, d)))
     = server_install_instructions d
   \<and> rows_of k' (server_install_instructions (snd (process_entry env server (c, d))))
       = rows_of k' (server_install_instructions d)
   \<and> rows_of k' (server_install_instructions (db (process_page env url st)))
       = rows_of k' (server_install_instructions (db st))"
  by (simp add: process_entry_skips process_page_tables del: process_entry.simps)

end
